theory Spec2Isabelle
  imports Complex_Main "HOL-Library.Word" "HOL-Library.Multiset"
begin

section \<open>Python values\<close>

text \<open>
  The program (\<^verbatim>\<open>function_app.py\<close>) works on the values that \<^verbatim>\<open>response.json()\<close>
  returns: \<^verbatim>\<open>None\<close>, booleans, integers, floats, strings, lists and dictionaries. A
  dictionary is an association list read with \<open>map_of\<close>. A float is the rational it
  stands for: float arithmetic is exact rational arithmetic here, so the model agrees
  with the source up to the rounding error of binary64, and infinities and NaN are not
  values of the model.
\<close>

datatype json =
    JNull
  | JBool bool
  | JInt int
  | JFloat rat
  | JStr string
  | JArr "json list"
  | JObj "(string \<times> json) list"

text \<open>The exception classes the program can meet; \<open>Inl e\<close> is "raises \<open>e\<close>".\<close>

datatype exn = AttributeError | TypeError | ValueError | OverflowError | IndexError | KeyError

definition bindE :: "exn + 'a \<Rightarrow> ('a \<Rightarrow> exn + 'b) \<Rightarrow> exn + 'b" where
  "bindE m f = (case m of Inl e \<Rightarrow> Inl e | Inr v \<Rightarrow> f v)"

text \<open>Truth value of an object (\<^verbatim>\<open>if x:\<close>, \<^verbatim>\<open>not x\<close>, \<^verbatim>\<open>x or y\<close>).\<close>

fun truthy :: "json \<Rightarrow> bool" where
  "truthy JNull = False"
| "truthy (JBool b) = b"
| "truthy (JInt i) = (i \<noteq> 0)"
| "truthy (JFloat q) = (q \<noteq> 0)"
| "truthy (JStr s) = (s \<noteq> [])"
| "truthy (JArr xs) = (xs \<noteq> [])"
| "truthy (JObj kvs) = (kvs \<noteq> [])"

text \<open>\<^verbatim>\<open>x.get(k, default)\<close>: only a dictionary has the method.\<close>

fun dict_get :: "json \<Rightarrow> string \<Rightarrow> json \<Rightarrow> exn + json" where
  "dict_get (JObj kvs) k d = Inr (case map_of kvs k of None \<Rightarrow> d | Some v \<Rightarrow> v)"
| "dict_get _ k d = Inl AttributeError"

text \<open>\<^verbatim>\<open>bool\<close> is a subclass of \<^verbatim>\<open>int\<close>: both are integers in arithmetic.\<close>

fun as_int :: "json \<Rightarrow> int option" where
  "as_int (JBool b) = Some (if b then 1 else 0)"
| "as_int (JInt i) = Some i"
| "as_int _ = None"

text \<open>
  Converting an integer to a float raises \<^verbatim>\<open>OverflowError\<close> from half an ulp above the
  largest binary64 value on.
\<close>

definition to_float :: "int \<Rightarrow> exn + rat" where
  "to_float n = (if \<bar>n\<bar> \<ge> 2 ^ 1024 - 2 ^ 970 then Inl OverflowError else Inr (of_int n))"

fun as_float :: "json \<Rightarrow> (exn + rat) option" where
  "as_float (JFloat q) = Some (Inr q)"
| "as_float (JBool b) = Some (Inr (if b then 1 else 0))"
| "as_float (JInt i) = Some (to_float i)"
| "as_float _ = None"

text \<open>Decimal digits of an integer, as \<^verbatim>\<open>str\<close> prints it.\<close>

definition digit_char :: "nat \<Rightarrow> char" where
  "digit_char n = ''0123456789'' ! n"

fun str_nat :: "nat \<Rightarrow> string" where
  "str_nat n = (if n < 10 then [digit_char n] else str_nat (n div 10) @ [digit_char (n mod 10)])"

declare str_nat.simps [simp del]

definition str_int :: "int \<Rightarrow> string" where
  "str_int i = (if i < 0 then CHR ''-'' # str_nat (nat (- i)) else str_nat (nat i))"

subsection \<open>Library functions outside the embedding\<close>

text \<open>
  Four functions of the Python library are parameters of the model, because their
  results depend on the interpreter version, on the platform or on the decimal
  printing of floats. Every theorem below holds for each value of the parameter.
  \<^item> \<open>int_of_str s\<close>: \<^verbatim>\<open>int(s)\<close> for a string \<open>s\<close>; \<open>None\<close> when it raises \<^verbatim>\<open>ValueError\<close>.
  \<^item> \<open>str_other v\<close>: \<^verbatim>\<open>str(v)\<close> for a float, a list or a dictionary.
  \<^item> \<open>iso_12h s\<close>: \<^verbatim>\<open>datetime.fromisoformat(s).strftime("%I:%M%p %Z")\<close>; \<open>None\<close>
    when \<^verbatim>\<open>fromisoformat\<close> raises \<^verbatim>\<open>ValueError\<close>.
  \<^item> \<open>float_ok s\<close>: \<^verbatim>\<open>float(s)\<close> does not raise.
\<close>

record pylib =
  int_of_str :: "string \<Rightarrow> int option"
  str_other :: "json \<Rightarrow> string"
  iso_12h :: "string \<Rightarrow> string option"
  float_ok :: "string \<Rightarrow> bool"

text \<open>
  For evaluation at concrete inputs: the library restricted to plain decimal notation
  (digits, with an optional sign for an integer and an optional fraction for a float).
  The examples below consult it on such strings only, and never print a float or parse
  a timestamp.
\<close>

definition is_digit :: "char \<Rightarrow> bool" where
  "is_digit c = (c \<in> set ''0123456789'')"

definition digit_value :: "char \<Rightarrow> int" where
  "digit_value c = (case map_of (zip ''0123456789'' [0, 1, 2, 3, 4, 5, 6, 7, 8, 9]) c of
                      Some d \<Rightarrow> d | None \<Rightarrow> 0)"

definition digits_value :: "string \<Rightarrow> int" where
  "digits_value s = foldl (\<lambda>acc c. 10 * acc + digit_value c) 0 s"

definition plain_int :: "string \<Rightarrow> int option" where
  "plain_int s =
     (case s of
        [] \<Rightarrow> None
      | c # cs \<Rightarrow>
          if c = CHR ''-'' \<and> cs \<noteq> [] \<and> list_all is_digit cs then Some (- digits_value cs)
          else if list_all is_digit s then Some (digits_value s)
          else None)"

definition plain_float :: "string \<Rightarrow> bool" where
  "plain_float s =
     (let t = (case s of c # cs \<Rightarrow> if c = CHR ''-'' then cs else s | [] \<Rightarrow> s);
          a = takeWhile is_digit t;
          b = dropWhile is_digit t
      in a \<noteq> [] \<and> (b = [] \<or> (hd b = CHR ''.'' \<and> tl b \<noteq> [] \<and> list_all is_digit (tl b))))"

definition plain_lib :: pylib where
  "plain_lib = \<lparr> int_of_str = plain_int, str_other = (\<lambda>v. []),
                  iso_12h = (\<lambda>s. None), float_ok = plain_float \<rparr>"

text \<open>\<^verbatim>\<open>str(v)\<close>, as an f-string interpolates a value.\<close>

definition py_str :: "pylib \<Rightarrow> json \<Rightarrow> string" where
  "py_str L v =
     (case v of
        JNull \<Rightarrow> ''None''
      | JBool b \<Rightarrow> (if b then ''True'' else ''False'')
      | JInt i \<Rightarrow> str_int i
      | JStr s \<Rightarrow> s
      | _ \<Rightarrow> str_other L v)"

section \<open>Helper functions\<close>

subsection \<open>\<^verbatim>\<open>get_wind_direction\<close>\<close>

definition directions :: "string list" where
  "directions =
     [''N'', ''NNE'', ''NE'', ''ENE'', ''E'', ''ESE'', ''SE'', ''SSE'',
      ''S'', ''SSW'', ''SW'', ''WSW'', ''W'', ''WNW'', ''NW'', ''NNW'']"

text \<open>\<^verbatim>\<open>int(x)\<close> of a float truncates towards zero.\<close>

definition trunc :: "rat \<Rightarrow> int" where
  "trunc q = (if q < 0 then \<lceil>q\<rceil> else \<lfloor>q\<rfloor>)"

text \<open>\<^verbatim>\<open>int(degrees)\<close> for an argument that is not \<^verbatim>\<open>None\<close>.\<close>

fun py_int :: "pylib \<Rightarrow> json \<Rightarrow> exn + int" where
  "py_int L JNull = Inl TypeError"
| "py_int L (JBool b) = Inr (if b then 1 else 0)"
| "py_int L (JInt i) = Inr i"
| "py_int L (JFloat q) = Inr (trunc q)"
| "py_int L (JStr s) = (case int_of_str L s of None \<Rightarrow> Inl ValueError | Some i \<Rightarrow> Inr i)"
| "py_int L (JArr xs) = Inl TypeError"
| "py_int L (JObj kvs) = Inl TypeError"

text \<open>
  \<^verbatim>\<open>directions[int((degrees + 11.25) / 22.5) % 16]\<close> for an integer \<open>d\<close>: the sum
  converts \<open>d\<close> to a float, \<^verbatim>\<open>int\<close> truncates towards zero, and \<^verbatim>\<open>%\<close> gives a result
  in \<open>0..15\<close>, so the index is in range. For \<open>\<bar>d\<bar> < 2 ^ 49\<close> the float computation is
  exact enough to give the same index: \<open>d + 11.25\<close> is representable, and the quotient
  \<open>(4 d + 45) / 90\<close> is at least \<open>1 / 90\<close> away from every integer.
\<close>

definition direction_index :: "int \<Rightarrow> exn + nat" where
  "direction_index d =
     bindE (to_float d) (\<lambda>q. Inr (nat (trunc ((q + 45 / 4) / (45 / 2)) mod 16)))"

text \<open>
  Lines 26 to 40. The handler catches \<^verbatim>\<open>ValueError\<close>, \<^verbatim>\<open>TypeError\<close> and
  \<^verbatim>\<open>IndexError\<close>; any other exception leaves the function. The warning the handler
  logs is not part of the model.
\<close>

definition get_wind_direction :: "pylib \<Rightarrow> json \<Rightarrow> exn + string" where
  "get_wind_direction L degrees =
     (if degrees = JNull then Inr ''N/A''
      else
        (case bindE (py_int L degrees) direction_index of
           Inr i \<Rightarrow> Inr (directions ! i)
         | Inl e \<Rightarrow> if e \<in> {ValueError, TypeError, IndexError} then Inr ''N/A'' else Inl e))"

subsection \<open>Arithmetic, rounding and strings\<close>

text \<open>
  \<^verbatim>\<open>a + b\<close>: integers add as integers, a float operand makes the sum a float (the
  integer operand is converted first), strings and lists concatenate.
\<close>

definition py_add :: "json \<Rightarrow> json \<Rightarrow> exn + json" where
  "py_add a b =
     (case (as_int a, as_int b) of
        (Some x, Some y) \<Rightarrow> Inr (JInt (x + y))
      | _ \<Rightarrow>
          (case (as_float a, as_float b) of
             (Some x, Some y) \<Rightarrow> bindE x (\<lambda>p. bindE y (\<lambda>q. Inr (JFloat (p + q))))
           | _ \<Rightarrow>
               (case (a, b) of
                  (JStr s, JStr t) \<Rightarrow> Inr (JStr (s @ t))
                | (JArr s, JArr t) \<Rightarrow> Inr (JArr (s @ t))
                | _ \<Rightarrow> Inl TypeError)))"

definition round_half_even :: "rat \<Rightarrow> int" where
  "round_half_even q =
     (let f = \<lfloor>q\<rfloor>; r = q - of_int f
      in if r < 1 / 2 then f else if 1 / 2 < r then f + 1 else if even f then f else f + 1)"

text \<open>\<^verbatim>\<open>round(v, 1)\<close>: an integer is returned as it is, a float is rounded to one decimal.\<close>

definition py_round1 :: "json \<Rightarrow> exn + json" where
  "py_round1 v =
     (case as_int v of
        Some i \<Rightarrow> Inr (JInt i)
      | None \<Rightarrow>
          (case v of
             JFloat q \<Rightarrow> Inr (JFloat (of_int (round_half_even (q * 10)) / 10))
           | _ \<Rightarrow> Inl TypeError))"

text \<open>
  \<^verbatim>\<open>s.capitalize()\<close> on ASCII letters: the first character in upper case, the others in
  lower case. A value that is not a string has no such method.
\<close>

definition lower_letters :: string where
  "lower_letters = ''abcdefghijklmnopqrstuvwxyz''"

definition upper_letters :: string where
  "upper_letters = ''ABCDEFGHIJKLMNOPQRSTUVWXYZ''"

definition ascii_upper :: "char \<Rightarrow> char" where
  "ascii_upper c =
     (case map_of (zip lower_letters upper_letters) c of Some u \<Rightarrow> u | None \<Rightarrow> c)"

definition ascii_lower :: "char \<Rightarrow> char" where
  "ascii_lower c =
     (case map_of (zip upper_letters lower_letters) c of Some l \<Rightarrow> l | None \<Rightarrow> c)"

fun capitalize :: "string \<Rightarrow> string" where
  "capitalize [] = []"
| "capitalize (c # cs) = ascii_upper c # map ascii_lower cs"

definition py_capitalize :: "json \<Rightarrow> exn + string" where
  "py_capitalize v = (case v of JStr s \<Rightarrow> Inr (capitalize s) | _ \<Rightarrow> Inl AttributeError)"

text \<open>\<^verbatim>\<open>for x in v\<close>: a dictionary yields its keys, a string its characters.\<close>

fun py_iter :: "json \<Rightarrow> exn + json list" where
  "py_iter (JArr xs) = Inr xs"
| "py_iter (JObj kvs) = Inr (map (\<lambda>kv. JStr (fst kv)) kvs)"
| "py_iter (JStr s) = Inr (map (\<lambda>c. JStr [c]) s)"
| "py_iter _ = Inl TypeError"

subsection \<open>Dates\<close>

text \<open>
  An aware \<^verbatim>\<open>datetime\<close> in UTC is the number of microseconds since the epoch.
  \<^verbatim>\<open>datetime.fromtimestamp(v, tz=utc)\<close> accepts a number of seconds whose year lies in
  1 to 9999; outside it raises \<^verbatim>\<open>ValueError\<close>, and \<^verbatim>\<open>OverflowError\<close> when the seconds do
  not fit the platform's 64-bit \<^verbatim>\<open>time_t\<close>. A float is rounded to microseconds, ties to
  even.
\<close>

definition min_seconds :: int where
  "min_seconds = - 62135596800"

definition max_seconds :: int where
  "max_seconds = 253402300799"

definition check_range :: "int \<Rightarrow> exn + int" where
  "check_range us =
     (let s = us div 1000000
      in if s < - (2 ^ 63) \<or> 2 ^ 63 \<le> s then Inl OverflowError
         else if s < min_seconds \<or> max_seconds < s then Inl ValueError
         else Inr us)"

definition fromtimestamp :: "json \<Rightarrow> exn + int" where
  "fromtimestamp v =
     (case as_int v of
        Some n \<Rightarrow> check_range (n * 1000000)
      | None \<Rightarrow>
          (case v of
             JFloat q \<Rightarrow> check_range (round_half_even (q * 1000000))
           | _ \<Rightarrow> Inl TypeError))"

text \<open>
  The civil date of a day number (days since 1970-01-01, proleptic Gregorian calendar):
  year, month, day.
\<close>

definition civil_from_days :: "int \<Rightarrow> int \<times> int \<times> int" where
  "civil_from_days z0 =
     (let z = z0 + 719468;
          era = z div 146097;
          doe = z mod 146097;
          yoe = (doe - doe div 1460 + doe div 36524 - doe div 146096) div 365;
          y = yoe + era * 400;
          doy = doe - (365 * yoe + yoe div 4 - yoe div 100);
          mp = (5 * doy + 2) div 153;
          d = doy - (153 * mp + 2) div 5 + 1;
          m = (if mp < 10 then mp + 3 else mp - 9)
      in (if m \<le> 2 then y + 1 else y, m, d))"

definition pad2 :: "int \<Rightarrow> string" where
  "pad2 n = (if n < 10 then CHR ''0'' # str_int n else str_int n)"

definition day_number :: "int \<Rightarrow> int" where
  "day_number us = us div 86400000000"

text \<open>
  \<^verbatim>\<open>strftime("%Y-%m-%d")\<close>, the year printed without padding (as the C library of
  Linux prints a year below 1000), and \<^verbatim>\<open>strftime("%A")\<close> in the C locale.
\<close>

definition strftime_ymd :: "int \<Rightarrow> string" where
  "strftime_ymd us =
     (case civil_from_days (day_number us) of
        (y, m, d) \<Rightarrow> str_int y @ ''-'' @ pad2 m @ ''-'' @ pad2 d)"

definition strftime_A :: "int \<Rightarrow> string" where
  "strftime_A us =
     [''Monday'', ''Tuesday'', ''Wednesday'', ''Thursday'', ''Friday'', ''Saturday'', ''Sunday'']
       ! nat ((day_number us + 3) mod 7)"

section \<open>The outside world\<close>

text \<open>
  A run observes the world through \<^verbatim>\<open>requests.get\<close> and acts on it through HTTP
  requests, log records and the mail transport. \<open>NoReply\<close> is a request that raises a
  \<^verbatim>\<open>RequestException\<close> before a response arrives; a response has a status code, its
  content, and the value of \<^verbatim>\<open>response.json()\<close> (\<open>None\<close> when the body is not JSON, which
  raises a \<^verbatim>\<open>RequestException\<close> as well). \<^verbatim>\<open>raise_for_status()\<close> raises for the
  status codes 400 to 599.

  The text of a log record is given up to the first interpolated value that has no
  model (the text of an exception, the printed response).
\<close>

type_synonym bytes = "8 word list"

datatype reply = NoReply | Reply nat bytes "json option"

type_synonym http = "string \<Rightarrow> (string \<times> string) list \<Rightarrow> reply"

definition http_error :: "nat \<Rightarrow> bool" where
  "http_error status = (400 \<le> status \<and> status < 600)"

datatype level = INFO | WARNING | ERROR

section \<open>The forecast record\<close>

text \<open>The dictionary built at lines 149 to 166, one field per key.\<close>

record forecast =
  weather_desc :: string
  icon :: json
  high_temp :: json
  low_temp :: json
  wind_speed :: json
  wind_direction :: string
  humidity :: string
  dew_point :: string
  precipitation :: json
  precip_chance :: json
  uv_index :: string
  sunrise :: string
  sunset :: string
  date_obj :: "int option"
  date_str :: string
  day_name :: string

subsection \<open>The parts of one record\<close>

text \<open>Lines 113 to 115: the first entry named \<^verbatim>\<open>UVIndex\<close>, printed with its category.\<close>

fun find_uv :: "json list \<Rightarrow> exn + json option" where
  "find_uv [] = Inr None"
| "find_uv (item # items) =
     bindE (dict_get item ''Name'' JNull)
       (\<lambda>n. if n = JStr ''UVIndex'' then Inr (Some item) else find_uv items)"

definition uv_index_of :: "pylib \<Rightarrow> json \<Rightarrow> exn + string" where
  "uv_index_of L air_and_pollen =
     bindE (py_iter air_and_pollen) (\<lambda>items.
     bindE (find_uv items) (\<lambda>uv_index_info.
       case uv_index_info of
         None \<Rightarrow> Inr ''N/A''
       | Some info \<Rightarrow>
           if truthy info then
             bindE (dict_get info ''Value'' JNull) (\<lambda>v.
             bindE (dict_get info ''Category'' JNull) (\<lambda>c.
               Inr (py_str L v @ '' ('' @ py_str L c @ '')'')))
           else Inr ''N/A''))"

text \<open>\<^verbatim>\<open>x.get(k, {}).get("Value", 0)\<close>.\<close>

definition sub_value :: "json \<Rightarrow> string \<Rightarrow> exn + json" where
  "sub_value x k = bindE (dict_get x k (JObj [])) (\<lambda>y. dict_get y ''Value'' (JInt 0))"

text \<open>Lines 118 to 120, the operands evaluated from left to right.\<close>

definition precip_value_of :: "json \<Rightarrow> exn + json" where
  "precip_value_of day_data =
     bindE (sub_value day_data ''Rain'') (\<lambda>rain.
     bindE (sub_value day_data ''Snow'') (\<lambda>snow.
     bindE (py_add rain snow) (\<lambda>rain_snow.
     bindE (sub_value day_data ''Ice'') (\<lambda>ice.
       py_add rain_snow ice))))"

text \<open>Line 125: \<^verbatim>\<open>round(wind_speed_kmh / 3.6, 1) if wind_speed_kmh is not None else 0.0\<close>.\<close>

definition wind_speed_ms_of :: "json \<Rightarrow> exn + json" where
  "wind_speed_ms_of wind_speed_kmh =
     (if wind_speed_kmh = JNull then Inr (JFloat 0)
      else
        (case as_float wind_speed_kmh of
           None \<Rightarrow> Inl TypeError
         | Some x \<Rightarrow> bindE x (\<lambda>q. py_round1 (JFloat (q / (18 / 5))))))"

text \<open>Line 129.\<close>

definition date_obj_of :: "json \<Rightarrow> exn + int option" where
  "date_obj_of epoch_date =
     (if truthy epoch_date then bindE (fromtimestamp epoch_date) (\<lambda>t. Inr (Some t))
      else Inr None)"

text \<open>
  Lines 137 to 146. \<open>None\<close>: the \<^verbatim>\<open>try\<close> block raised (\<^verbatim>\<open>TypeError\<close> for a value that is
  not a string, \<^verbatim>\<open>ValueError\<close> for a string that does not parse); then both times are
  \<^verbatim>\<open>"N/A"\<close>. The warning the handler logs is not part of the model.
\<close>

definition sun_time :: "pylib \<Rightarrow> json \<Rightarrow> string option" where
  "sun_time L v =
     (if \<not> truthy v then Some ''N/A''
      else (case v of JStr s \<Rightarrow> iso_12h L s | _ \<Rightarrow> None))"

definition sun_times :: "pylib \<Rightarrow> json \<Rightarrow> json \<Rightarrow> string \<times> string" where
  "sun_times L sunrise_str sunset_str =
     (case (sun_time L sunrise_str, sun_time L sunset_str) of
        (Some a, Some b) \<Rightarrow> (a, b)
      | _ \<Rightarrow> (''N/A'', ''N/A''))"

subsection \<open>One record: the body of the loop, lines 104 to 167\<close>

definition daily_forecast :: "pylib \<Rightarrow> json \<Rightarrow> exn + forecast" where
  "daily_forecast L daily_data =
     bindE (dict_get daily_data ''Temperature'' (JObj [])) (\<lambda>temp_data.
     bindE (dict_get daily_data ''Day'' (JObj [])) (\<lambda>day_data.
     bindE (dict_get day_data ''Wind'' (JObj [])) (\<lambda>wind_data.
     bindE (dict_get wind_data ''Speed'' (JObj [])) (\<lambda>wind_speed_data.
     bindE (dict_get wind_data ''Direction'' (JObj [])) (\<lambda>wind_direction_data.
     bindE (dict_get daily_data ''Sun'' (JObj [])) (\<lambda>sun_data.
     bindE (dict_get daily_data ''AirAndPollen'' (JArr [])) (\<lambda>air_and_pollen.
     bindE (uv_index_of L air_and_pollen) (\<lambda>uv.
     bindE (precip_value_of day_data) (\<lambda>precip_value.
     bindE (dict_get day_data ''PrecipitationProbability'' (JInt 0)) (\<lambda>precip_prob.
     bindE (dict_get wind_speed_data ''Value'' JNull) (\<lambda>wind_speed_kmh.
     bindE (wind_speed_ms_of wind_speed_kmh) (\<lambda>wind_speed_ms.
     bindE (dict_get daily_data ''EpochDate'' JNull) (\<lambda>epoch_date.
     bindE (date_obj_of epoch_date) (\<lambda>dt.
     bindE (dict_get sun_data ''Rise'' JNull) (\<lambda>sunrise_str.
     bindE (dict_get sun_data ''Set'' JNull) (\<lambda>sunset_str.
     bindE (dict_get day_data ''IconPhrase'' (JStr ''N/A'')) (\<lambda>icon_phrase.
     bindE (py_capitalize icon_phrase) (\<lambda>desc.
     bindE (dict_get day_data ''Icon'' JNull) (\<lambda>icon_code.
     bindE (sub_value temp_data ''Maximum'') (\<lambda>maximum.
     bindE (py_round1 maximum) (\<lambda>high.
     bindE (sub_value temp_data ''Minimum'') (\<lambda>minimum.
     bindE (py_round1 minimum) (\<lambda>low.
     bindE (dict_get wind_direction_data ''Degrees'' JNull) (\<lambda>degrees.
     bindE (get_wind_direction L degrees) (\<lambda>direction.
     bindE (py_round1 precip_value) (\<lambda>precip.
       Inr \<lparr> weather_desc = desc,
             icon = icon_code,
             high_temp = high,
             low_temp = low,
             wind_speed = wind_speed_ms,
             wind_direction = direction,
             humidity = ''N/A'',
             dew_point = ''N/A'',
             precipitation = precip,
             precip_chance = precip_prob,
             uv_index = uv,
             sunrise = fst (sun_times L sunrise_str sunset_str),
             sunset = snd (sun_times L sunrise_str sunset_str),
             date_obj = dt,
             date_str = (case dt of None \<Rightarrow> ''N/A'' | Some t \<Rightarrow> strftime_ymd t),
             day_name = (case dt of None \<Rightarrow> ''N/A'' | Some t \<Rightarrow> strftime_A t) \<rparr>
     ))))))))))))))))))))))))))"

fun forecasts_of :: "pylib \<Rightarrow> json list \<Rightarrow> exn + forecast list" where
  "forecasts_of L [] = Inr []"
| "forecasts_of L (d # ds) =
     bindE (daily_forecast L d) (\<lambda>f. bindE (forecasts_of L ds) (\<lambda>fs. Inr (f # fs)))"

section \<open>The report\<close>

text \<open>
  The HTML body is built from f-string templates; each template is a constructor that
  holds the values interpolated into it, so the document is the list of its parts in
  the order they are appended to \<^verbatim>\<open>html_content\<close>.
  \<^item> \<open>Img cid desc\<close> is the element \<^verbatim>\<open><img src="cid:{cid}" alt="{desc}" title="{desc}">\<close>
    (class \<^verbatim>\<open>summary-icon-small\<close> in the summary strip, \<^verbatim>\<open>weather-icon\<close> in a detail
    section); \<open>Text s\<close> is the text \<open>s\<close> in its place.
  \<^item> \<open>Head n city\<close> is the document head with the title for \<open>n\<close> days and \<open>city\<close>, up to
    the opening of the summary container (lines 294 to 314).
  \<^item> \<open>SummaryItem day tag\<close> is one \<^verbatim>\<open>summary-item\<close> block (lines 348 to 368),
    \<open>SummaryEnd\<close> closes the container (lines 370 to 372).
  \<^item> \<open>DayForecast tag f\<close> is the \<^verbatim>\<open>day-forecast\<close> block of record \<open>f\<close> (lines 392 to 405).
  \<^item> \<open>Foot\<close> is the closing text (lines 407 to 410).
\<close>

datatype img_tag = Img string string | Text string

datatype html_part =
    Head nat string
  | SummaryItem string img_tag
  | SummaryEnd
  | DayForecast img_tag forecast
  | Foot

text \<open>
  What a run does, in order. \<open>SendMail user password to (n, city) html images\<close> is the
  call of \<^verbatim>\<open>send_email_with_images\<close>, the subject being the one for \<open>n\<close> days and \<open>city\<close>.
\<close>

datatype event =
    Log level string
  | Get string "(string \<times> string) list"
  | SendMail string string string "nat \<times> string" "html_part list" "(bytes \<times> string) list"

definition ACCUWEATHER_BASE_URL :: string where
  "ACCUWEATHER_BASE_URL = ''http://dataservice.accuweather.com''"

section \<open>\<^verbatim>\<open>get_accuweather_location_key\<close>, lines 42 to 71\<close>

definition location_url :: string where
  "location_url = ACCUWEATHER_BASE_URL @ ''/locations/v1/cities/geoposition/search''"

definition location_params :: "string \<Rightarrow> string \<Rightarrow> string \<Rightarrow> (string \<times> string) list" where
  "location_params lat lon api_key =
     [(''apikey'', api_key), (''q'', lat @ '','' @ lon),
      (''language'', ''en-us''), (''toplevel'', ''false'')]"

text \<open>
  Lines 56 to 61, for the value \<^verbatim>\<open>data\<close> of the response. The function returns
  \<^verbatim>\<open>data["Key"]\<close>, whatever it is, or \<^verbatim>\<open>None\<close>.
\<close>

definition location_key_of :: "pylib \<Rightarrow> string \<Rightarrow> string \<Rightarrow> json \<Rightarrow> event list \<times> json" where
  "location_key_of L lat lon data =
     (case data of
        JObj kvs \<Rightarrow>
          (case map_of kvs ''Key'' of
             Some k \<Rightarrow>
               ([Log INFO (''Found AccuWeather Location Key: '' @ py_str L k @ '' for ('' @ lat
                           @ '', '' @ lon @ '')'')], k)
           | None \<Rightarrow>
               ([Log ERROR ''Could not find Location Key in AccuWeather response: ''], JNull))
      | _ \<Rightarrow> ([Log ERROR ''Could not find Location Key in AccuWeather response: ''], JNull))"

definition get_accuweather_location_key ::
    "pylib \<Rightarrow> http \<Rightarrow> string \<Rightarrow> string \<Rightarrow> string \<Rightarrow> event list \<times> json" where
  "get_accuweather_location_key L web lat lon api_key =
     (let params = location_params lat lon api_key;
          request = Get location_url params;
          failed = Log ERROR ''Error fetching AccuWeather location key: ''
      in case web location_url params of
           NoReply \<Rightarrow> ([request, failed], JNull)
         | Reply status content body \<Rightarrow>
             if http_error status then
               ([request, failed, Log ERROR ''AccuWeather Location API Response: ''], JNull)
             else
               (case body of
                  None \<Rightarrow> ([request, failed], JNull)
                | Some data \<Rightarrow>
                    (case location_key_of L lat lon data of (logs, k) \<Rightarrow> (request # logs, k))))"

section \<open>\<^verbatim>\<open>get_accuweather_forecast\<close>, lines 74 to 183\<close>

definition forecast_url :: "pylib \<Rightarrow> int \<Rightarrow> json \<Rightarrow> string" where
  "forecast_url L days location_key =
     ACCUWEATHER_BASE_URL @ ''/forecasts/v1/daily/'' @ str_int days @ ''day/''
       @ py_str L location_key"

definition forecast_params :: "string \<Rightarrow> (string \<times> string) list" where
  "forecast_params api_key =
     [(''apikey'', api_key), (''language'', ''en-us''), (''details'', ''true''), (''metric'', ''true'')]"

text \<open>The key of the sort at line 170: a record without a date sorts as \<^verbatim>\<open>datetime.min\<close>.\<close>

definition date_key :: "forecast \<Rightarrow> int" where
  "date_key f = (case date_obj f of None \<Rightarrow> min_seconds * 1000000 | Some t \<Rightarrow> t)"

text \<open>Lines 169 to 173. \<^verbatim>\<open>list.sort\<close> is stable, as \<open>sort_key\<close> is.\<close>

definition sort_and_limit :: "int \<Rightarrow> forecast list \<Rightarrow> forecast list" where
  "sort_and_limit days weekly_forecast = take (nat days) (sort_key date_key weekly_forecast)"

fun has_infix :: "string \<Rightarrow> string \<Rightarrow> bool" where
  "has_infix p [] = (p = [])"
| "has_infix p (c # cs) = (take (length p) (c # cs) = p \<or> has_infix p cs)"

definition missing_forecasts :: event where
  "missing_forecasts = Log ERROR ''AccuWeather forecast response is missing 'DailyForecasts'.''"

definition parse_error :: event where
  "parse_error = Log ERROR ''Error parsing AccuWeather forecast data: ''"

text \<open>
  Lines 99 to 173 and the handler at lines 180 to 183, for the value \<^verbatim>\<open>data\<close> of the
  response. Only a dictionary can hold the key and be indexed by it: in a list or a
  string that contains \<^verbatim>\<open>"DailyForecasts"\<close> the index raises \<^verbatim>\<open>TypeError\<close>, and in a
  number the test \<^verbatim>\<open>in\<close> does. The handler catches \<^verbatim>\<open>KeyError\<close>, \<^verbatim>\<open>ValueError\<close>,
  \<^verbatim>\<open>TypeError\<close> and \<^verbatim>\<open>IndexError\<close>; any other exception leaves the function.
\<close>

definition parse_forecast :: "pylib \<Rightarrow> int \<Rightarrow> json \<Rightarrow> event list \<times> (exn + forecast list option)" where
  "parse_forecast L days data =
     (if \<not> truthy data then ([missing_forecasts], Inr None)
      else
        (case data of
           JObj kvs \<Rightarrow>
             (case map_of kvs ''DailyForecasts'' of
                None \<Rightarrow> ([missing_forecasts], Inr None)
              | Some v \<Rightarrow>
                  (case bindE (py_iter v) (forecasts_of L) of
                     Inr weekly_forecast \<Rightarrow> ([], Inr (Some (sort_and_limit days weekly_forecast)))
                   | Inl e \<Rightarrow>
                       if e \<in> {KeyError, ValueError, TypeError, IndexError}
                       then ([parse_error], Inr None)
                       else ([], Inl e)))
         | JArr xs \<Rightarrow>
             if JStr ''DailyForecasts'' \<in> set xs then ([parse_error], Inr None)
             else ([missing_forecasts], Inr None)
         | JStr s \<Rightarrow>
             if has_infix ''DailyForecasts'' s then ([parse_error], Inr None)
             else ([missing_forecasts], Inr None)
         | _ \<Rightarrow> ([parse_error], Inr None)))"

text \<open>Line 80: \<^verbatim>\<open>days in [1, 5, 10, 15]\<close>.\<close>

definition supported_days :: "int \<Rightarrow> bool" where
  "supported_days days = (days \<in> set [1, 5, 10, 15])"

definition days_warning :: "int \<Rightarrow> event" where
  "days_warning days =
     Log WARNING (''Unsupported number of forecast days requested: '' @ str_int days
                  @ ''. Defaulting to 5.'')"

text \<open>Lines 84 to 183, for the number of days the request is made with.\<close>

definition fetch_forecast ::
    "pylib \<Rightarrow> http \<Rightarrow> json \<Rightarrow> string \<Rightarrow> int \<Rightarrow> event list \<times> (exn + forecast list option)" where
  "fetch_forecast L web location_key api_key days =
     (let url = forecast_url L days location_key;
          params = forecast_params api_key;
          request = Get url params;
          failed = Log ERROR ''Error fetching AccuWeather forecast data: ''
      in case web url params of
           NoReply \<Rightarrow> ([request, failed], Inr None)
         | Reply status content body \<Rightarrow>
             if http_error status then
               ([request, failed, Log ERROR ''AccuWeather Forecast API Response: ''], Inr None)
             else
               (case body of
                  None \<Rightarrow> ([request, failed], Inr None)
                | Some data \<Rightarrow>
                    (case parse_forecast L days data of (logs, r) \<Rightarrow> (request # logs, r))))"

text \<open>The whole function: lines 80 to 82 replace an unsupported number of days by 5.\<close>

definition get_accuweather_forecast ::
    "pylib \<Rightarrow> http \<Rightarrow> json \<Rightarrow> string \<Rightarrow> int \<Rightarrow> event list \<times> (exn + forecast list option)" where
  "get_accuweather_forecast L web location_key api_key days =
     (if supported_days days then fetch_forecast L web location_key api_key days
      else
        (case fetch_forecast L web location_key api_key 5 of
           (events, result) \<Rightarrow> (days_warning days # events, result)))"

section \<open>\<^verbatim>\<open>WeatherAlert\<close>, lines 233 to 425\<close>

subsection \<open>The summary strip, lines 316 to 368\<close>

text \<open>
  \<^verbatim>\<open>s.zfill(2)\<close>: zeros are put on the left up to two characters, after a leading sign.
\<close>

definition zfill2 :: "string \<Rightarrow> string" where
  "zfill2 s =
     (case s of
        [] \<Rightarrow> ''00''
      | [c] \<Rightarrow> if c = CHR ''+'' \<or> c = CHR ''-'' then [c, CHR ''0''] else [CHR ''0'', c]
      | _ \<Rightarrow> s)"

definition icon_code_str :: "pylib \<Rightarrow> forecast \<Rightarrow> string" where
  "icon_code_str L day_forecast = zfill2 (py_str L (icon day_forecast))"

definition icon_url :: "string \<Rightarrow> string" where
  "icon_url code = ''https://developer.accuweather.com/sites/default/files/'' @ code @ ''-s.png''"

definition cid_of :: "string \<Rightarrow> string \<Rightarrow> string" where
  "cid_of date code = ''summary_icon_'' @ date @ ''_'' @ code"

definition image_cid :: "pylib \<Rightarrow> forecast \<Rightarrow> string" where
  "image_cid L day_forecast = cid_of (date_str day_forecast) (icon_code_str L day_forecast)"

text \<open>
  The variables the loop updates. A cache entry is \<open>Some bytes\<close> for fetched content
  and \<open>None\<close> for the mark of a failed fetch.
\<close>

record render_state =
  fetched_icons :: "string \<rightharpoonup> bytes option"
  email_images :: "(bytes \<times> string) list"
  html_content :: "html_part list"
  events :: "event list"

text \<open>
  Truth value of a cache entry, for \<^verbatim>\<open>fetched_icons[code]\<close> and
  \<^verbatim>\<open>fetched_icons.get(code)\<close>: \<^verbatim>\<open>None\<close> and empty content are false.
\<close>

fun icon_ok :: "bytes option option \<Rightarrow> bool" where
  "icon_ok (Some (Some content)) = (content \<noteq> [])"
| "icon_ok _ = False"

text \<open>
  Lines 332 to 334: the content of the response, or \<open>None\<close> when the request or
  \<^verbatim>\<open>raise_for_status()\<close> raises a \<^verbatim>\<open>RequestException\<close>.
\<close>

definition icon_content :: "reply \<Rightarrow> bytes option" where
  "icon_content r =
     (case r of
        NoReply \<Rightarrow> None
      | Reply status content body \<Rightarrow> if http_error status then None else Some content)"

definition icon_warning :: "string \<Rightarrow> event" where
  "icon_warning code =
     Log WARNING (''Could not fetch summary AccuWeather icon '' @ code
                  @ '' ('' @ icon_url code @ ''): '')"

text \<open>Lines 330 to 345: fetch the icon or use the cache, and attach the image.\<close>

definition fetch_icon :: "http \<Rightarrow> string \<Rightarrow> string \<Rightarrow> render_state \<Rightarrow> render_state" where
  "fetch_icon web code cid st =
     (case fetched_icons st code of
        None \<Rightarrow>
          (case icon_content (web (icon_url code) []) of
             Some icon_bytes \<Rightarrow>
               st\<lparr> fetched_icons := (fetched_icons st)(code \<mapsto> Some icon_bytes),
                   email_images := email_images st @ [(icon_bytes, cid)],
                   events := events st @ [Get (icon_url code) []] \<rparr>
           | None \<Rightarrow>
               st\<lparr> fetched_icons := (fetched_icons st)(code \<mapsto> None),
                   events := events st @ [Get (icon_url code) [], icon_warning code] \<rparr>)
      | Some cached \<Rightarrow>
          (case cached of
             Some icon_bytes \<Rightarrow>
               if icon_bytes \<noteq> [] \<and> cid \<notin> set (map snd (email_images st))
               then st\<lparr> email_images := email_images st @ [(icon_bytes, cid)] \<rparr>
               else st
           | None \<Rightarrow> st))"

text \<open>The body of the loop at line 318.\<close>

definition summary_step :: "pylib \<Rightarrow> http \<Rightarrow> render_state \<Rightarrow> forecast \<Rightarrow> render_state" where
  "summary_step L web st day_forecast =
     (if truthy (icon day_forecast) then
        (let code = icon_code_str L day_forecast;
             cid = image_cid L day_forecast;
             st1 = fetch_icon web code cid st
         in st1\<lparr> html_content := html_content st1 @
                  [SummaryItem (day_name day_forecast)
                     (if icon_ok (fetched_icons st1 code) then Img cid (weather_desc day_forecast)
                      else Text (''('' @ weather_desc day_forecast @ '')''))] \<rparr>)
      else
        st\<lparr> html_content := html_content st @
               [SummaryItem (day_name day_forecast)
                  (Text (''('' @ weather_desc day_forecast @ '')''))] \<rparr>)"

subsection \<open>The detail sections, lines 374 to 405\<close>

definition detail_tag :: "pylib \<Rightarrow> (string \<rightharpoonup> bytes option) \<Rightarrow> forecast \<Rightarrow> img_tag" where
  "detail_tag L cache day_forecast =
     (if truthy (icon day_forecast) then
        (if icon_ok (cache (icon_code_str L day_forecast))
         then Img (image_cid L day_forecast) (weather_desc day_forecast)
         else Text (''('' @ weather_desc day_forecast @ '' - icon unavailable)''))
      else Text ''(icon unavailable)'')"

definition detail_part :: "pylib \<Rightarrow> (string \<rightharpoonup> bytes option) \<Rightarrow> forecast \<Rightarrow> html_part" where
  "detail_part L cache day_forecast = DayForecast (detail_tag L cache day_forecast) day_forecast"

subsection \<open>The report of a forecast, lines 289 to 410\<close>

definition initial_state :: "string \<Rightarrow> forecast list \<Rightarrow> render_state" where
  "initial_state city forecast_data =
     \<lparr> fetched_icons = Map.empty, email_images = [],
       html_content = [Head (length forecast_data) city], events = [] \<rparr>"

definition summary_loop :: "pylib \<Rightarrow> http \<Rightarrow> string \<Rightarrow> forecast list \<Rightarrow> render_state" where
  "summary_loop L web city forecast_data =
     foldl (summary_step L web) (initial_state city forecast_data) forecast_data"

definition report_html :: "pylib \<Rightarrow> http \<Rightarrow> string \<Rightarrow> forecast list \<Rightarrow> html_part list" where
  "report_html L web city forecast_data =
     (let st = summary_loop L web city forecast_data
      in html_content st @ [SummaryEnd]
           @ map (detail_part L (fetched_icons st)) forecast_data @ [Foot])"

definition report_images :: "pylib \<Rightarrow> http \<Rightarrow> string \<Rightarrow> forecast list \<Rightarrow> (bytes \<times> string) list" where
  "report_images L web city forecast_data = email_images (summary_loop L web city forecast_data)"

definition report_events :: "pylib \<Rightarrow> http \<Rightarrow> string \<Rightarrow> forecast list \<Rightarrow> event list" where
  "report_events L web city forecast_data = events (summary_loop L web city forecast_data)"

text \<open>The content-identifiers a document refers to, in order.\<close>

fun tag_cids :: "img_tag \<Rightarrow> string list" where
  "tag_cids (Img cid desc) = [cid]"
| "tag_cids (Text s) = []"

fun part_cids :: "html_part \<Rightarrow> string list" where
  "part_cids (SummaryItem day tag) = tag_cids tag"
| "part_cids (DayForecast tag f) = tag_cids tag"
| "part_cids _ = []"

definition html_cids :: "html_part list \<Rightarrow> string list" where
  "html_cids html = concat (map part_cids html)"

subsection \<open>The run\<close>

text \<open>
  The settings of a run are the environment variables; \<open>FORECAST_DAYS\<close> is the value of
  \<^verbatim>\<open>int(os.getenv("FORECAST_DAYS", "5"))\<close> (a run in which that conversion raises stops
  at line 251, before any request, and is not a run of the model).
\<close>

record world =
  past_due :: bool
  ACCUWEATHER_API_KEY :: "string option"
  GMAIL_USER :: "string option"
  GMAIL_PASSWORD :: "string option"
  TO_EMAIL :: "string option"
  LATITUDE :: "string option"
  LONGITUDE :: "string option"
  CITY_NAME :: "string option"
  FORECAST_DAYS :: int
  web :: http

text \<open>\<^verbatim>\<open>os.getenv(name)\<close> of a variable, read after the check that it is set.\<close>

definition setting :: "string option \<Rightarrow> string" where
  "setting v = (case v of None \<Rightarrow> [] | Some s \<Rightarrow> s)"

definition unset :: "string option \<Rightarrow> bool" where
  "unset v = (case v of None \<Rightarrow> True | Some s \<Rightarrow> s = [])"

definition missing_vars :: "world \<Rightarrow> string list" where
  "missing_vars W =
     map fst (filter (\<lambda>nv. unset (snd nv))
       [(''ACCUWEATHER_API_KEY'', ACCUWEATHER_API_KEY W),
        (''GMAIL_USER'', GMAIL_USER W),
        (''GMAIL_PASSWORD'', GMAIL_PASSWORD W),
        (''TO_EMAIL'', TO_EMAIL W),
        (''LATITUDE'', LATITUDE W),
        (''LONGITUDE'', LONGITUDE W)])"

fun join_comma :: "string list \<Rightarrow> string" where
  "join_comma [] = []"
| "join_comma [s] = s"
| "join_comma (s # t # ts) = s @ '', '' @ join_comma (t # ts)"

definition finished :: event where
  "finished = Log INFO ''WeatherNotifier function finished.''"

text \<open>Lines 288 to 425, for the value \<^verbatim>\<open>forecast_data\<close> that the fetch returned.\<close>

definition send_report ::
    "pylib \<Rightarrow> world \<Rightarrow> string \<Rightarrow> forecast list option \<Rightarrow> event list" where
  "send_report L W city forecast_data =
     (case forecast_data of
        None \<Rightarrow> [Log ERROR ''Failed to retrieve AccuWeather forecast data. Email not sent.'', finished]
      | Some fs \<Rightarrow>
          if fs = [] then
            [Log ERROR ''Failed to retrieve AccuWeather forecast data. Email not sent.'', finished]
          else
            report_events L (web W) city fs @
            [Log INFO ''Sending AccuWeather forecast email...'',
             SendMail (setting (GMAIL_USER W)) (setting (GMAIL_PASSWORD W)) (setting (TO_EMAIL W))
               (length fs, city) (report_html L (web W) city fs) (report_images L (web W) city fs),
             finished])"

text \<open>
  Lines 284 to 286 and what follows them, for a location key that is true. The second
  component is the exception that leaves the function, if any: the call at line 286 is
  in no \<^verbatim>\<open>try\<close> block.
\<close>

definition forecast_phase ::
    "pylib \<Rightarrow> world \<Rightarrow> string \<Rightarrow> json \<Rightarrow> event list \<times> exn option" where
  "forecast_phase L W city location_key =
     (case get_accuweather_forecast L (web W) location_key (setting (ACCUWEATHER_API_KEY W))
             (FORECAST_DAYS W) of
        (logs, result) \<Rightarrow>
          (let fetching = Log INFO (''Fetching '' @ str_int (FORECAST_DAYS W)
                              @ ''-day AccuWeather forecast using Location Key ''
                              @ py_str L location_key @ ''...'')
           in case result of
                Inl e \<Rightarrow> (fetching # logs, Some e)
              | Inr forecast_data \<Rightarrow>
                  (fetching # logs @ send_report L W city forecast_data, None)))"

text \<open>Lines 238 to 241, and the settings the checks at lines 262 to 274 let pass.\<close>

definition start_events :: "world \<Rightarrow> event list" where
  "start_events W =
     (if past_due W then [Log WARNING ''The timer is past due!''] else []) @
     [Log INFO ''WeatherNotifier function started (AccuWeather Version).'']"

definition city_of :: "world \<Rightarrow> string" where
  "city_of W = (case CITY_NAME W of None \<Rightarrow> ''Unknown Location'' | Some c \<Rightarrow> c)"

definition valid_numbers :: "pylib \<Rightarrow> world \<Rightarrow> bool" where
  "valid_numbers L W =
     (float_ok L (setting (LATITUDE W)) \<and> float_ok L (setting (LONGITUDE W))
      \<and> 1 \<le> FORECAST_DAYS W \<and> FORECAST_DAYS W \<le> 15)"

text \<open>
  The whole function: the first component is what the run does, in order, the second
  the exception that leaves it, if any.
\<close>

definition WeatherAlert :: "pylib \<Rightarrow> world \<Rightarrow> event list \<times> exn option" where
  "WeatherAlert L W =
     (if missing_vars W \<noteq> [] then
        (start_events W @
         [Log ERROR (''Missing environment variables: '' @ join_comma (missing_vars W))], None)
      else if \<not> valid_numbers L W then
        (start_events W @ [Log ERROR ''Configuration error: ''], None)
      else
        (let lat = setting (LATITUDE W);
             lon = setting (LONGITUDE W);
             fetching = Log INFO (''Fetching AccuWeather Location Key for '' @ city_of W
                                  @ '' ('' @ lat @ '', '' @ lon @ '')...'')
         in case get_accuweather_location_key L (web W) lat lon
                   (setting (ACCUWEATHER_API_KEY W)) of
              (logs, location_key) \<Rightarrow>
                if \<not> truthy location_key then
                  (start_events W @ fetching # logs @
                   [Log ERROR ''Failed to get AccuWeather Location Key. Cannot proceed.''], None)
                else
                  (case forecast_phase L W (city_of W) location_key of
                     (rest, raised) \<Rightarrow> (start_events W @ fetching # logs @ rest, raised))))"

text \<open>Kinds of events, and what the claims call a failed location lookup.\<close>

fun is_mail :: "event \<Rightarrow> bool" where
  "is_mail (SendMail user password to subject html images) = True"
| "is_mail _ = False"

fun is_get :: "event \<Rightarrow> bool" where
  "is_get (Get url params) = True"
| "is_get _ = False"

fun is_log :: "event \<Rightarrow> bool" where
  "is_log (Log l s) = True"
| "is_log _ = False"

text \<open>The call at line 278, with the settings of the run.\<close>

definition resolved :: "pylib \<Rightarrow> world \<Rightarrow> event list \<times> json" where
  "resolved L W =
     get_accuweather_location_key L (web W) (setting (LATITUDE W)) (setting (LONGITUDE W))
       (setting (ACCUWEATHER_API_KEY W))"

text \<open>
  A response value that lacks a non-empty location key: it is no dictionary, or has no
  \<^verbatim>\<open>"Key"\<close>, or a key that is false (\<^verbatim>\<open>None\<close>, empty, zero). A geoposition exchange
  that fails: no response, a status that \<^verbatim>\<open>raise_for_status()\<close> rejects, a body that is
  not JSON, or a value that lacks the key.
\<close>

definition lacks_key :: "json \<Rightarrow> bool" where
  "lacks_key data =
     (case data of
        JObj kvs \<Rightarrow> (case map_of kvs ''Key'' of None \<Rightarrow> True | Some k \<Rightarrow> \<not> truthy k)
      | _ \<Rightarrow> True)"

definition location_failed :: "reply \<Rightarrow> bool" where
  "location_failed r =
     (case r of
        NoReply \<Rightarrow> True
      | Reply status content body \<Rightarrow>
          http_error status \<or> (case body of None \<Rightarrow> True | Some data \<Rightarrow> lacks_key data))"

subsection \<open>The report in closed form\<close>

text \<open>
  What the loops amount to, stated without the cache: the outcome of the request for an
  icon code, whether a record is shown with its icon, and the two parts of the document
  that belong to a record. The lemmas \<open>report_html_parts\<close> and \<open>final_cache\<close> below
  prove that the loops compute them.
\<close>

definition fetched :: "http \<Rightarrow> string \<Rightarrow> bytes option" where
  "fetched w code = icon_content (w (icon_url code) [])"

definition shown :: "pylib \<Rightarrow> http \<Rightarrow> forecast \<Rightarrow> bool" where
  "shown L w f = (truthy (icon f) \<and> icon_ok (Some (fetched w (icon_code_str L f))))"

definition summary_item :: "pylib \<Rightarrow> http \<Rightarrow> forecast \<Rightarrow> html_part" where
  "summary_item L w f =
     SummaryItem (day_name f)
       (if shown L w f then Img (image_cid L f) (weather_desc f)
        else Text (''('' @ weather_desc f @ '')''))"

definition detail_item :: "pylib \<Rightarrow> http \<Rightarrow> forecast \<Rightarrow> html_part" where
  "detail_item L w f =
     DayForecast
       (if shown L w f then Img (image_cid L f) (weather_desc f)
        else if truthy (icon f) then Text (''('' @ weather_desc f @ '' - icon unavailable)'')
        else Text ''(icon unavailable)'')
       f"


text \<open>Invariants of the loop at line 318.\<close>

definition cache_ok :: "http \<Rightarrow> render_state \<Rightarrow> bool" where
  "cache_ok w st = (\<forall>c v. fetched_icons st c = Some v \<longrightarrow> v = fetched w c)"



definition images_ok :: "http \<Rightarrow> render_state \<Rightarrow> bool" where
  "images_ok w st =
     (\<forall>b cid. (b, cid) \<in> set (email_images st) \<longrightarrow>
        (\<exists>d c. cid = cid_of d c \<and> CHR ''_'' \<notin> set d \<and> fetched w c = Some b))"


text \<open>The content-identifiers an email refers to, and those it attaches.\<close>

fun mail_html_cids :: "event \<Rightarrow> string list" where
  "mail_html_cids (SendMail user password to subject html images) = html_cids html"
| "mail_html_cids _ = []"

fun mail_image_cids :: "event \<Rightarrow> string list" where
  "mail_image_cids (SendMail user password to subject html images) = map snd images"
| "mail_image_cids _ = []"


subsection \<open>Entries with missing fields\<close>






section \<open>Example inputs\<close>

text \<open>
  A provider entry for one day: its timestamp, its icon code, nothing else. A world that
  answers the geoposition request, the forecast request and every icon request with
  three given replies, and the settings of a run in it.
\<close>

definition example_day :: "int \<Rightarrow> json \<Rightarrow> json" where
  "example_day epoch icon_code =
     JObj [(''EpochDate'', JInt epoch), (''Day'', JObj [(''Icon'', icon_code)])]"

definition example_web :: "reply \<Rightarrow> reply \<Rightarrow> reply \<Rightarrow> http" where
  "example_web location forecasts icons url params =
     (if url = location_url then location
      else if take (length ACCUWEATHER_BASE_URL) url = ACCUWEATHER_BASE_URL then forecasts
      else icons)"

definition example_world :: "http \<Rightarrow> int \<Rightarrow> world" where
  "example_world w days =
     \<lparr> past_due = False, ACCUWEATHER_API_KEY = Some ''key'', GMAIL_USER = Some ''me@example.org'',
       GMAIL_PASSWORD = Some ''secret'', TO_EMAIL = Some ''you@example.org'',
       LATITUDE = Some ''51.5'', LONGITUDE = Some ''-0.12'', CITY_NAME = Some ''Springfield'',
       FORECAST_DAYS = days, web = w \<rparr>"

definition json_reply :: "nat \<Rightarrow> json \<Rightarrow> reply" where
  "json_reply status data = Reply status [] (Some data)"






definition one_day :: json where
  "one_day = JObj [(''DailyForecasts'', JArr [example_day 1735689600 (JInt 1)])]"

definition empty_icon_world :: world where
  "empty_icon_world =
     example_world (example_web (json_reply 200 (JObj [(''Key'', JStr ''K'')]))
       (json_reply 200 one_day) (Reply 200 [] None)) 1"






section \<open>Wind direction\<close>










section \<open>Events of a run\<close>

lemma bindE_InrE:
  assumes "bindE m f = Inr r"
  obtains v where "m = Inr v" and "f v = Inr r"
  using assms by (cases m) (simp_all add: bindE_def)

lemma logs_no_get: "list_all is_log xs \<Longrightarrow> filter is_get xs = [] \<and> filter is_mail xs = []"
  by (induction xs) (auto elim: is_log.elims)

lemma start_events_logs: "list_all is_log (start_events W)"
  by (simp add: start_events_def)


text \<open>The resolver issues its one request and logs; nothing else.\<close>

lemma resolver_events:
  "\<exists>logs. fst (get_accuweather_location_key L w lat lon api) =
      Get location_url (location_params lat lon api) # logs \<and> (\<forall>e\<in>set logs. \<exists>l s. e = Log l s)"
  by (auto simp: get_accuweather_location_key_def Let_def location_key_of_def
      split: reply.splits option.splits prod.splits json.splits if_splits)

lemma resolved_events:
  "\<exists>logs. fst (resolved L W) =
      Get location_url (location_params (setting (LATITUDE W)) (setting (LONGITUDE W))
        (setting (ACCUWEATHER_API_KEY W))) # logs \<and> list_all is_log logs"
  unfolding resolved_def
  by (auto simp: get_accuweather_location_key_def Let_def location_key_of_def
      split: reply.splits option.splits prod.splits json.splits if_splits)












text \<open>The ways a run ends before the forecast is fetched, and the way it goes on.\<close>

lemma WeatherAlert_invalid:
  assumes "missing_vars W \<noteq> [] \<or> \<not> valid_numbers L W"
  shows "list_all is_log (fst (WeatherAlert L W)) \<and> snd (WeatherAlert L W) = None"
  using assms start_events_logs [of W] by (auto simp: WeatherAlert_def)

lemma WeatherAlert_no_key:
  assumes "missing_vars W = []" and "valid_numbers L W" and "\<not> truthy (snd (resolved L W))"
  shows "\<exists>logs. fst (WeatherAlert L W) = logs @ fst (resolved L W) @
            [Log ERROR ''Failed to get AccuWeather Location Key. Cannot proceed.'']
          \<and> list_all is_log logs \<and> snd (WeatherAlert L W) = None"
proof -
  obtain ev k where r: "resolved L W = (ev, k)" by (cases "resolved L W")
  let ?logs = "start_events W @ [Log INFO (''Fetching AccuWeather Location Key for '' @ city_of W
                                  @ '' ('' @ setting (LATITUDE W) @ '', '' @ setting (LONGITUDE W) @ '')...'')]"
  have "list_all is_log ?logs" using start_events_logs [of W] by simp
  moreover have "fst (WeatherAlert L W) = ?logs @ fst (resolved L W) @
            [Log ERROR ''Failed to get AccuWeather Location Key. Cannot proceed.'']"
     "snd (WeatherAlert L W) = None"
    using assms r by (simp_all add: WeatherAlert_def Let_def resolved_def)
  ultimately show ?thesis by blast
qed



section \<open>The location key\<close>

lemma key_falsy:
  "lacks_key data \<Longrightarrow> \<not> truthy (snd (location_key_of L lat lon data))"
  by (auto simp: lacks_key_def location_key_of_def split: json.splits option.splits)

lemma resolver_falsy:
  "location_failed (w location_url (location_params lat lon api)) \<Longrightarrow>
     \<not> truthy (snd (get_accuweather_location_key L w lat lon api))"
  by (auto simp: location_failed_def get_accuweather_location_key_def Let_def
      split: reply.splits option.splits prod.splits
      dest!: key_falsy [where L = L and lat = lat and lon = lon])


text \<open>
  Claim C6, as the code has it. When the geoposition exchange fails (no response, a
  status from 400 to 599, a body that is not JSON, or a value without a location key
  that is true), \<^verbatim>\<open>get_accuweather_location_key\<close> returns a value that is false
  (\<^verbatim>\<open>None\<close>, or the empty key itself), the run ends without an exception, it sends no
  email, and the geoposition request is the only request it makes.
\<close>

theorem location_failure_halts:
  assumes "location_failed (web W location_url
             (location_params (setting (LATITUDE W)) (setting (LONGITUDE W))
                (setting (ACCUWEATHER_API_KEY W))))"
  shows "\<not> truthy (snd (get_accuweather_location_key L (web W) (setting (LATITUDE W))
                       (setting (LONGITUDE W)) (setting (ACCUWEATHER_API_KEY W))))
       \<and> snd (WeatherAlert L W) = None
       \<and> filter is_mail (fst (WeatherAlert L W)) = []
       \<and> (\<forall>u p. Get u p \<in> set (fst (WeatherAlert L W)) \<longrightarrow> u = location_url)"
proof -
  have falsy: "\<not> truthy (snd (resolved L W))"
    unfolding resolved_def using assms by (rule resolver_falsy)
  obtain rlogs where rl: "fst (resolved L W) =
      Get location_url (location_params (setting (LATITUDE W)) (setting (LONGITUDE W))
        (setting (ACCUWEATHER_API_KEY W))) # rlogs" "list_all is_log rlogs"
    using resolved_events by blast
  have "snd (WeatherAlert L W) = None
       \<and> filter is_mail (fst (WeatherAlert L W)) = []
       \<and> (\<forall>u p. Get u p \<in> set (fst (WeatherAlert L W)) \<longrightarrow> u = location_url)"
  proof (cases "missing_vars W = [] \<and> valid_numbers L W")
    case True
    then obtain logs where w: "fst (WeatherAlert L W) = logs @ fst (resolved L W) @
            [Log ERROR ''Failed to get AccuWeather Location Key. Cannot proceed.'']"
          "list_all is_log logs" "snd (WeatherAlert L W) = None"
      using WeatherAlert_no_key falsy by blast
    have "Get u p \<in> set xs \<Longrightarrow> list_all is_log xs \<Longrightarrow> False" for u p xs
      by (auto simp: list_all_iff)
    then show ?thesis
      using w rl logs_no_get [OF w(2)] logs_no_get [OF rl(2)] by auto
  next
    case False
    then have "list_all is_log (fst (WeatherAlert L W))" "snd (WeatherAlert L W) = None"
      using WeatherAlert_invalid by blast+
    then show ?thesis
      using logs_no_get by (auto simp: list_all_iff)
  qed
  then show ?thesis
    using falsy by (simp add: resolved_def)
qed

theorem location_failure_halts_witness:
  "location_failed (json_reply 200 (JObj [(''Key'', JStr [])]))
   \<and> fst (WeatherAlert plain_lib
        (example_world (example_web (json_reply 200 (JObj [(''Key'', JStr [])])) NoReply NoReply) 5))
     = [Log INFO ''WeatherNotifier function started (AccuWeather Version).'',
        Log INFO ''Fetching AccuWeather Location Key for Springfield (51.5, -0.12)...'',
        Get location_url (location_params ''51.5'' ''-0.12'' ''key''),
        Log INFO ''Found AccuWeather Location Key:  for (51.5, -0.12)'',
        Log ERROR ''Failed to get AccuWeather Location Key. Cannot proceed.'']"
proof -
  let ?W = "example_world (example_web (json_reply 200 (JObj [(''Key'', JStr [])])) NoReply NoReply) 5"
  have h: "location_failed (web ?W location_url
             (location_params (setting (LATITUDE ?W)) (setting (LONGITUDE ?W))
                (setting (ACCUWEATHER_API_KEY ?W))))"
    by code_simp
  have f: "location_failed (json_reply 200 (JObj [(''Key'', JStr [])]))"
    by code_simp
  have run: "fst (WeatherAlert plain_lib ?W)
     = [Log INFO ''WeatherNotifier function started (AccuWeather Version).'',
        Log INFO ''Fetching AccuWeather Location Key for Springfield (51.5, -0.12)...'',
        Get location_url (location_params ''51.5'' ''-0.12'' ''key''),
        Log INFO ''Found AccuWeather Location Key:  for (51.5, -0.12)'',
        Log ERROR ''Failed to get AccuWeather Location Key. Cannot proceed.'']"
    by code_simp
  show ?thesis
    using location_failure_halts [OF h, of plain_lib] f run by simp
qed


text \<open>
  Claim C6 as stated counts every response outside 2xx as a failure. A response with
  status 300 passes \<^verbatim>\<open>raise_for_status()\<close>; when its body holds a key the resolver
  returns it and the run goes on to request the forecast.
\<close>

theorem location_status_300_counterexample:
  "\<not> http_error 300
   \<and> snd (get_accuweather_location_key plain_lib
        (example_web (json_reply 300 (JObj [(''Key'', JStr ''K'')])) NoReply NoReply)
        ''51.5'' ''-0.12'' ''key'') = JStr ''K''
   \<and> Get (forecast_url plain_lib 5 (JStr ''K'')) (forecast_params ''key'')
       \<in> set (fst (WeatherAlert plain_lib
           (example_world (example_web (json_reply 300 (JObj [(''Key'', JStr ''K'')])) NoReply NoReply) 5)))"
  by code_simp


section \<open>The forecast request\<close>







section \<open>The weather description\<close>

text \<open>The description of a record is the capitalized phrase that line 150 reads.\<close>

lemma weather_desc_capitalized:
  assumes "daily_forecast L d = Inr r"
  shows "\<exists>day phrase. dict_get d ''Day'' (JObj []) = Inr day
           \<and> dict_get day ''IconPhrase'' (JStr ''N/A'') = Inr (JStr phrase)
           \<and> weather_desc r = capitalize phrase"
  using assms unfolding daily_forecast_def
  by (elim bindE_InrE) (auto simp: py_capitalize_def split: json.splits)


text \<open>
  Claim C9 at a record without \<^verbatim>\<open>IconPhrase\<close>: the default \<^verbatim>\<open>"N/A"\<close> is capitalized
  with the rest, so the description is \<^verbatim>\<open>"N/a"\<close>.
\<close>

theorem weather_desc_default:
  "map_sum id weather_desc (daily_forecast plain_lib (example_day 1735689600 (JInt 1))) = Inr ''N/a''"
  by code_simp


section \<open>Sorting and limiting the forecast\<close>










section \<open>The icon cache and the report\<close>

subsection \<open>The cache and the document\<close>

lemma fetch_icon_cache:
  assumes "cache_ok w st"
  shows "fetched_icons (fetch_icon w code cid st) = (fetched_icons st)(code \<mapsto> fetched w code)"
proof (cases "fetched_icons st code")
  case None
  then show ?thesis
    by (simp add: fetch_icon_def fetched_def split: option.splits)
next
  case (Some v)
  then have "v = fetched w code"
    using assms by (simp add: cache_ok_def)
  then have "(fetched_icons st)(code \<mapsto> fetched w code) = fetched_icons st"
    using Some by (simp add: map_upd_triv)
  then show ?thesis
    using Some by (simp add: fetch_icon_def split: option.splits)
qed

lemma fetch_icon_html: "html_content (fetch_icon w code cid st) = html_content st"
  by (simp add: fetch_icon_def split: option.splits)

lemma summary_step_cache:
  assumes "cache_ok w st"
  shows "fetched_icons (summary_step L w st f) =
           (if truthy (icon f)
            then (fetched_icons st)(icon_code_str L f \<mapsto> fetched w (icon_code_str L f))
            else fetched_icons st)"
  using fetch_icon_cache [OF assms] by (simp add: summary_step_def Let_def)

lemma summary_step_ok:
  assumes "cache_ok w st"
  shows "cache_ok w (summary_step L w st f)"
  using assms unfolding cache_ok_def summary_step_cache [OF assms] by simp

lemma summary_step_html:
  assumes "cache_ok w st"
  shows "html_content (summary_step L w st f) = html_content st @ [summary_item L w f]"
  using fetch_icon_cache [OF assms]
  by (simp add: summary_step_def Let_def summary_item_def shown_def fetch_icon_html)

lemma summary_fold:
  assumes "cache_ok w st"
  shows "cache_ok w (foldl (summary_step L w) st fs)
       \<and> html_content (foldl (summary_step L w) st fs) = html_content st @ map (summary_item L w) fs
       \<and> (\<forall>c. fetched_icons (foldl (summary_step L w) st fs) c =
              (if c \<in> icon_code_str L ` {f \<in> set fs. truthy (icon f)} then Some (fetched w c)
               else fetched_icons st c))"
  using assms
proof (induction fs arbitrary: st)
  case Nil
  then show ?case by simp
next
  case (Cons f fs)
  have ok: "cache_ok w (summary_step L w st f)"
    using Cons.prems by (rule summary_step_ok)
  show ?case
    using Cons.IH [OF ok] summary_step_html [OF Cons.prems, of L f]
      summary_step_cache [OF Cons.prems, of L f]
    by auto
qed

lemma initial_ok: "cache_ok w (initial_state city fs)"
  by (simp add: cache_ok_def initial_state_def)

lemma final_cache:
  "fetched_icons (summary_loop L w city fs) c =
     (if c \<in> icon_code_str L ` {f \<in> set fs. truthy (icon f)} then Some (fetched w c) else None)"
  using summary_fold [OF initial_ok [of w city fs], where L = L and fs = fs]
  by (simp add: summary_loop_def initial_state_def)

lemma detail_part_final:
  assumes "f \<in> set fs"
  shows "detail_part L (fetched_icons (summary_loop L w city fs)) f = detail_item L w f"
proof (cases "truthy (icon f)")
  case True
  then have "icon_code_str L f \<in> icon_code_str L ` {f \<in> set fs. truthy (icon f)}"
    using assms by blast
  then show ?thesis
    using True by (simp add: detail_part_def detail_tag_def detail_item_def shown_def final_cache)
next
  case False
  then show ?thesis
    by (simp add: detail_part_def detail_tag_def detail_item_def shown_def)
qed


text \<open>The document in closed form, and the two parts of the record at position \<open>i\<close>.\<close>

lemma report_html_parts:
  "report_html L w city fs =
     Head (length fs) city # map (summary_item L w) fs @ [SummaryEnd]
       @ map (detail_item L w) fs @ [Foot]"
proof -
  have "html_content (summary_loop L w city fs) = Head (length fs) city # map (summary_item L w) fs"
    using summary_fold [OF initial_ok [of w city fs], where L = L and fs = fs]
    by (simp add: summary_loop_def initial_state_def)
  moreover have "map (detail_part L (fetched_icons (summary_loop L w city fs))) fs
      = map (detail_item L w) fs"
    using detail_part_final by simp
  ultimately show ?thesis
    by (simp add: report_html_def Let_def)
qed


lemma report_html_cids:
  "set (html_cids (report_html L w city fs)) = image_cid L ` {f \<in> set fs. shown L w f}"
  by (auto simp: html_cids_def report_html_parts summary_item_def detail_item_def
      split: if_splits)


subsection \<open>Requests\<close>












subsection \<open>Content-identifiers and attachments\<close>

lemma split_at_underscore:
  assumes "d @ CHR ''_'' # c = d' @ CHR ''_'' # c'"
    and "CHR ''_'' \<notin> set d" and "CHR ''_'' \<notin> set d'"
  shows "d = d' \<and> c = c'"
  using assms
proof (induction d arbitrary: d')
  case Nil
  then show ?case by (cases d') auto
next
  case (Cons x d)
  then show ?case by (cases d') auto
qed

lemma cid_of_inj:
  assumes "cid_of d c = cid_of d' c'"
    and "CHR ''_'' \<notin> set d" and "CHR ''_'' \<notin> set d'"
  shows "d = d' \<and> c = c'"
  using assms split_at_underscore [of d c d' c'] by (simp add: cid_of_def)

lemma str_nat_digits: "set (str_nat n) \<subseteq> set ''0123456789''"
proof (induction n rule: str_nat.induct)
  case (1 n)
  have digit: "digit_char k \<in> set ''0123456789''" if "k < 10" for k
    unfolding digit_char_def using that nth_mem [of k "''0123456789''"] by simp
  show ?case
  proof (cases "n < 10")
    case True
    then show ?thesis
      using digit [of n] by (subst str_nat.simps) simp
  next
    case False
    then show ?thesis
      using 1 digit [of "n mod 10"] by (subst str_nat.simps) simp
  qed
qed

lemma str_int_no_underscore: "CHR ''_'' \<notin> set (str_int i)"
  using str_nat_digits [of "nat i"] str_nat_digits [of "nat (- i)"]
  by (auto simp: str_int_def)

lemma strftime_ymd_no_underscore: "CHR ''_'' \<notin> set (strftime_ymd t)"
  using str_int_no_underscore
  by (auto simp: strftime_ymd_def pad2_def split: prod.splits)

lemma forecast_date_no_underscore:
  assumes "daily_forecast L d = Inr f"
  shows "CHR ''_'' \<notin> set (date_str f)"
  using assms unfolding daily_forecast_def
  by (elim bindE_InrE) (auto simp: strftime_ymd_no_underscore split: option.splits)

lemma fetch_icon_images:
  assumes "cache_ok w st" and "images_ok w st" and "CHR ''_'' \<notin> set d"
  shows "images_ok w (fetch_icon w c (cid_of d c) st)
       \<and> set (email_images st) \<subseteq> set (email_images (fetch_icon w c (cid_of d c) st))
       \<and> (\<forall>b. fetched w c = Some b \<and> b \<noteq> [] \<longrightarrow>
             (b, cid_of d c) \<in> set (email_images (fetch_icon w c (cid_of d c) st)))"
proof (cases "fetched_icons st c")
  case None
  show ?thesis
  proof (cases "fetched w c")
    case none: None
    then show ?thesis
      using None assms(2) by (simp add: fetch_icon_def fetched_def images_ok_def)
  next
    case (Some b)
    then have "email_images (fetch_icon w c (cid_of d c) st) = email_images st @ [(b, cid_of d c)]"
      using None by (simp add: fetch_icon_def fetched_def)
    then show ?thesis
      using Some assms(2,3) unfolding images_ok_def by auto
  qed
next
  case (Some v)
  then have v: "v = fetched w c"
    using assms(1) by (simp add: cache_ok_def)
  show ?thesis
  proof (cases v)
    case None
    then show ?thesis
      using Some v assms(2) by (simp add: fetch_icon_def)
  next
    case b: (Some b)
    show ?thesis
    proof (cases "b \<noteq> [] \<and> cid_of d c \<notin> set (map snd (email_images st))")
      case True
      then have "email_images (fetch_icon w c (cid_of d c) st) = email_images st @ [(b, cid_of d c)]"
        using Some b by (simp add: fetch_icon_def)
      then show ?thesis
        using b v assms(2,3) unfolding images_ok_def by auto
    next
      case False
      then have same: "fetch_icon w c (cid_of d c) st = st"
        using Some b by (auto simp: fetch_icon_def)
      have "(b, cid_of d c) \<in> set (email_images st)" if "b \<noteq> []"
      proof -
        from False that obtain b' where in_list: "(b', cid_of d c) \<in> set (email_images st)"
          by auto
        then obtain d' c' where "cid_of d c = cid_of d' c'" "CHR ''_'' \<notin> set d'"
            "fetched w c' = Some b'"
          using assms(2) unfolding images_ok_def by blast
        then have "c' = c"
          using cid_of_inj [of d c d' c'] assms(3) by simp
        then have "b' = b"
          using \<open>fetched w c' = Some b'\<close> b v by simp
        then show ?thesis
          using in_list by simp
      qed
      then show ?thesis
        using same assms(2) b v by auto
    qed
  qed
qed

lemma summary_step_images:
  assumes "cache_ok w st" and "images_ok w st" and "CHR ''_'' \<notin> set (date_str f)"
  shows "images_ok w (summary_step L w st f)
       \<and> set (email_images st) \<subseteq> set (email_images (summary_step L w st f))
       \<and> (\<forall>b. truthy (icon f) \<and> fetched w (icon_code_str L f) = Some b \<and> b \<noteq> [] \<longrightarrow>
             (b, image_cid L f) \<in> set (email_images (summary_step L w st f)))"
proof (cases "truthy (icon f)")
  case True
  then show ?thesis
    using fetch_icon_images [OF assms, of "icon_code_str L f"]
    by (simp add: summary_step_def Let_def image_cid_def images_ok_def)
next
  case False
  then show ?thesis
    using assms(2) by (simp add: summary_step_def images_ok_def)
qed

lemma summary_fold_images:
  assumes "cache_ok w st" and "images_ok w st" and "\<forall>f\<in>set fs. CHR ''_'' \<notin> set (date_str f)"
  shows "images_ok w (foldl (summary_step L w) st fs)
       \<and> set (email_images st) \<subseteq> set (email_images (foldl (summary_step L w) st fs))
       \<and> (\<forall>f\<in>set fs. \<forall>b. truthy (icon f) \<and> fetched w (icon_code_str L f) = Some b \<and> b \<noteq> [] \<longrightarrow>
             (b, image_cid L f) \<in> set (email_images (foldl (summary_step L w) st fs)))"
  using assms
proof (induction fs arbitrary: st)
  case Nil
  then show ?case by simp
next
  case (Cons f fs)
  have d: "CHR ''_'' \<notin> set (date_str f)" and ds: "\<forall>f\<in>set fs. CHR ''_'' \<notin> set (date_str f)"
    using Cons.prems(3) by simp_all
  note step = summary_step_images [OF Cons.prems(1,2) d, of L]
  note rest = Cons.IH [OF summary_step_ok [OF Cons.prems(1)] conjunct1 [OF step] ds]
  show ?case
    using step rest by auto
qed

lemma report_images_shown:
  assumes "\<forall>f\<in>set fs. CHR ''_'' \<notin> set (date_str f)"
    and "f \<in> set fs" and "truthy (icon f)"
    and "fetched w (icon_code_str L f) = Some b" and "b \<noteq> []"
  shows "(b, image_cid L f) \<in> set (report_images L w city fs)"
proof -
  have "images_ok w (initial_state city fs)"
    by (simp add: images_ok_def initial_state_def)
  from summary_fold_images [OF initial_ok this assms(1), of L] assms(2-5)
  show ?thesis
    by (simp add: report_images_def summary_loop_def)
qed


lemma fetch_icon_new_images:
  assumes "cache_ok w st" and "(b, x) \<in> set (email_images (fetch_icon w c cid st))"
  shows "(b, x) \<in> set (email_images st) \<or> (x = cid \<and> fetched w c = Some b)"
proof (cases "fetched_icons st c")
  case None
  then show ?thesis
    using assms(2) by (auto simp: fetch_icon_def fetched_def split: option.splits)
next
  case (Some v)
  then have "v = fetched w c"
    using assms(1) by (simp add: cache_ok_def)
  then show ?thesis
    using Some assms(2) by (auto simp: fetch_icon_def split: option.splits if_splits)
qed

lemma summary_step_new_images:
  assumes "cache_ok w st" and "(b, x) \<in> set (email_images (summary_step L w st f))"
  shows "(b, x) \<in> set (email_images st)
       \<or> (truthy (icon f) \<and> x = image_cid L f \<and> fetched w (icon_code_str L f) = Some b)"
proof (cases "truthy (icon f)")
  case True
  then show ?thesis
    using assms(2) fetch_icon_new_images [OF assms(1), of b x "icon_code_str L f" "image_cid L f"]
    by (simp add: summary_step_def Let_def)
next
  case False
  then show ?thesis
    using assms(2) by (simp add: summary_step_def)
qed

lemma summary_fold_new_images:
  assumes "cache_ok w st" and "(b, x) \<in> set (email_images (foldl (summary_step L w) st fs))"
  shows "(b, x) \<in> set (email_images st)
       \<or> (\<exists>f\<in>set fs. truthy (icon f) \<and> x = image_cid L f
             \<and> fetched w (icon_code_str L f) = Some b)"
  using assms
proof (induction fs arbitrary: st)
  case Nil
  then show ?case by simp
next
  case (Cons f fs)
  from Cons.IH [OF summary_step_ok [OF Cons.prems(1)]] Cons.prems(2)
  have "(b, x) \<in> set (email_images (summary_step L w st f))
       \<or> (\<exists>f\<in>set fs. truthy (icon f) \<and> x = image_cid L f
             \<and> fetched w (icon_code_str L f) = Some b)"
    by simp
  then show ?case
    using summary_step_new_images [OF Cons.prems(1), of b x L f] by auto
qed









text \<open>
  Claim C2 at a run whose icon request is answered with status 200 and empty content:
  the content is attached under the record's content-identifier at line 336, and lines
  347 and 386 then take the empty cache entry for a failed fetch, so the document refers
  to no content-identifier.
\<close>

theorem empty_icon_attached_unreferenced:
  "map mail_html_cids (filter is_mail (fst (WeatherAlert plain_lib empty_icon_world))) = [[]]
   \<and> map mail_image_cids (filter is_mail (fst (WeatherAlert plain_lib empty_icon_world)))
       = [[''summary_icon_2025-01-01_01'']]"
  by code_simp


text \<open>
  When no icon request is answered with empty content, the document refers to exactly
  the content-identifiers that are attached.
\<close>

lemma report_cids_agree:
  assumes "\<forall>f\<in>set fs. \<exists>d. daily_forecast L d = Inr f"
    and "\<forall>f\<in>set fs. truthy (icon f) \<longrightarrow> icon_content (w (icon_url (icon_code_str L f)) []) \<noteq> Some []"
  shows "set (html_cids (report_html L w city fs)) = set (map snd (report_images L w city fs))"
proof -
  have dates: "\<forall>f\<in>set fs. CHR ''_'' \<notin> set (date_str f)"
    using assms(1) forecast_date_no_underscore by blast
  have "x \<in> set (map snd (report_images L w city fs))" if "f \<in> set fs" "shown L w f"
      "x = image_cid L f" for x f
  proof -
    from that(2) obtain b where "truthy (icon f)" "fetched w (icon_code_str L f) = Some b" "b \<noteq> []"
      unfolding shown_def by (cases "fetched w (icon_code_str L f)") auto
    then have "(b, image_cid L f) \<in> set (report_images L w city fs)"
      using report_images_shown [OF dates that(1)] by blast
    then show ?thesis
      using that(3) by force
  qed
  moreover have "x \<in> image_cid L ` {f \<in> set fs. shown L w f}"
    if "x \<in> set (map snd (report_images L w city fs))" for x
  proof -
    from that obtain b where "(b, x) \<in> set (email_images (summary_loop L w city fs))"
      by (auto simp: report_images_def)
    then have "\<exists>f\<in>set fs. truthy (icon f) \<and> x = image_cid L f
             \<and> fetched w (icon_code_str L f) = Some b"
      using summary_fold_new_images [OF initial_ok, of b x L w city fs fs]
      by (simp add: summary_loop_def initial_state_def)
    then obtain f where f: "f \<in> set fs" "truthy (icon f)" "x = image_cid L f"
        "fetched w (icon_code_str L f) = Some b"
      by blast
    then have "b \<noteq> []"
      using assms(2) by (auto simp: fetched_def)
    then have "shown L w f"
      using f by (simp add: shown_def)
    then show ?thesis
      using f by blast
  qed
  ultimately show ?thesis
    unfolding report_html_cids by blast
qed


section \<open>Defaults for missing fields\<close>



























end
